theory Spec2Isabelle
  imports Main "HOL-Library.Word"
begin

section \<open>Authentication and authorization core of the Hospital Management API\<close>

text \<open>
  A shallow embedding of the helper functions and the authentication endpoints of
  \<^verbatim>\<open>src/main.py\<close>: \<^verbatim>\<open>hash_password\<close>, \<^verbatim>\<open>verify_password\<close>,
  \<^verbatim>\<open>create_token\<close>, \<^verbatim>\<open>get_user_from_token\<close>, \<^verbatim>\<open>require_roles\<close>,
  \<^verbatim>\<open>signup\<close> and \<^verbatim>\<open>login\<close>.

  Everything the Python reads from outside is an explicit argument of the model: the
  clock readings of \<^verbatim>\<open>datetime.now\<close>, the random string of
  \<^verbatim>\<open>secrets.token_urlsafe\<close>, the identifier the store generates on insertion,
  the SHA-256 compression of \<^verbatim>\<open>hashlib\<close> and the e-mail validator of pydantic. The
  two collections of the document store are lists of records in insertion order, and an
  endpoint returns its result together with the store it leaves behind.
\<close>

subsection \<open>Strings\<close>

text \<open>
  A Python \<^verbatim>\<open>str\<close> is modelled as a \<^typ>\<open>string\<close> whose characters are the code
  points 0 to 255 (the range of an HTTP header value; names, e-mail addresses and passwords
  are taken from the same range). \<^verbatim>\<open>str.isspace\<close> and \<^verbatim>\<open>str.lower\<close> are written
  out for that range.
\<close>

definition isspace :: "char \<Rightarrow> bool" where
  "isspace c = (let n = (of_char c :: nat) in
     (9 \<le> n \<and> n \<le> 13) \<or> (28 \<le> n \<and> n \<le> 32) \<or> n = 133 \<or> n = 160)"

definition lower_char :: "char \<Rightarrow> char" where
  "lower_char c = (let n = (of_char c :: nat) in
     if (65 \<le> n \<and> n \<le> 90) \<or> (192 \<le> n \<and> n \<le> 222 \<and> n \<noteq> 215)
     then char_of (n + 32) else c)"

definition str_lower :: "string \<Rightarrow> string" where
  "str_lower s = map lower_char s"

text \<open>
  \<^verbatim>\<open>s.split()\<close> with no argument: the maximal runs of characters that are not
  whitespace, in order. The first argument of \<open>split_from\<close> is the run being read,
  reversed.
\<close>

fun split_from :: "string \<Rightarrow> string \<Rightarrow> string list" where
  "split_from cur [] = (if cur = [] then [] else [rev cur])"
| "split_from cur (c # cs) =
     (if isspace c then (if cur = [] then split_from [] cs else rev cur # split_from [] cs)
      else split_from (c # cur) cs)"

definition str_split :: "string \<Rightarrow> string list" where
  "str_split s = split_from [] s"

text \<open>\<^verbatim>\<open>s.encode("utf-8")\<close> for code points below 256: one byte below 128, two above.\<close>

definition encode_utf8 :: "string \<Rightarrow> 8 word list" where
  "encode_utf8 s = concat (map (\<lambda>c. let n = (of_char c :: nat) in
     if n < 128 then [of_nat n] else [of_nat (192 + n div 64), of_nat (128 + n mod 64)]) s)"

subsection \<open>Password hasher\<close>

text \<open>
  \<^verbatim>\<open>hashlib.sha256\<close> is a library function: its compression of a byte string into a
  256-bit digest is the parameter \<open>sha\<close>. \<^verbatim>\<open>hexdigest\<close> writes the 32 bytes of the
  digest as 64 lowercase hexadecimal digits, most significant first.
\<close>

definition hexdigit :: "nat \<Rightarrow> char" where
  "hexdigit n = ''0123456789abcdef'' ! (n mod 16)"

definition hexdigest :: "256 word \<Rightarrow> string" where
  "hexdigest w = map (\<lambda>i. hexdigit (unat (drop_bit (4 * (63 - i)) w) mod 16)) [0..<64]"

definition hash_password :: "(8 word list \<Rightarrow> 256 word) \<Rightarrow> string \<Rightarrow> string" where
  "hash_password sha password = hexdigest (sha (encode_utf8 password))"

definition verify_password :: "(8 word list \<Rightarrow> 256 word) \<Rightarrow> string \<Rightarrow> string \<Rightarrow> bool" where
  "verify_password sha password hashed = (hash_password sha password = hashed)"

subsection \<open>Documents and the store\<close>

text \<open>
  Timestamps are microseconds since the epoch, in UTC; the store is taken to return the
  timestamps it was given, comparable with the readings of the clock.
\<close>

type_synonym datetime = int

definition timedelta_days :: "int \<Rightarrow> int" where
  "timedelta_days d = d * 86400000000"

text \<open>
  The value of an \<^verbatim>\<open>_id\<close> or \<^verbatim>\<open>user_id\<close> field: an ObjectId, held as the 24
  lowercase hexadecimal digits \<^verbatim>\<open>str\<close> prints it as, or a plain string. The store never
  equates the two kinds.
\<close>

datatype id_value = Oid string | Str string

fun str_of_id :: "id_value \<Rightarrow> string" where
  "str_of_id (Oid h) = h"
| "str_of_id (Str s) = s"

definition is_hex :: "char \<Rightarrow> bool" where
  "is_hex c = (let n = (of_char c :: nat) in
     (48 \<le> n \<and> n \<le> 57) \<or> (65 \<le> n \<and> n \<le> 70) \<or> (97 \<le> n \<and> n \<le> 102))"

definition is_lower_hex :: "char \<Rightarrow> bool" where
  "is_lower_hex c = (let n = (of_char c :: nat) in
     (48 \<le> n \<and> n \<le> 57) \<or> (97 \<le> n \<and> n \<le> 102))"

text \<open>
  \<^verbatim>\<open>bson.ObjectId(v)\<close>: an ObjectId is taken as it is, a string of exactly 24
  hexadecimal digits in either case is read, anything else raises (here \<open>None\<close>).
\<close>

fun ObjectId :: "id_value \<Rightarrow> id_value option" where
  "ObjectId (Oid h) = Some (Oid h)"
| "ObjectId (Str s) =
     (if length s = 24 \<and> list_all is_hex s then Some (Oid (str_lower s)) else None)"

text \<open>
  A document of a collection is a record whose optional fields are \<open>None\<close> when the key
  is absent, as \<^verbatim>\<open>dict.get\<close> reports it. (A key stored with a null value reads the
  same way everywhere but in \<^verbatim>\<open>get("is_active", True)\<close>; such documents are not
  modelled.)
\<close>

record user_doc =
  doc_id :: id_value
  doc_name :: "string option"
  doc_email :: "string option"
  doc_role :: "string option"
  doc_password_hash :: "string option"
  doc_is_active :: "bool option"
  doc_created_at :: "datetime option"
  doc_updated_at :: "datetime option"

record token_doc =
  tok_token :: string
  tok_user_id :: id_value
  tok_role :: "string option"
  tok_expires_at :: "datetime option"
  tok_created_at :: "datetime option"

record database =
  user_auth :: "user_doc list"
  token :: "token_doc list"

text \<open>
  Modelled from the spec: the storage collaborator (the module \<^verbatim>\<open>database\<close> is not
  part of the sources). \<open>findOne(filter)\<close> gives a matching document or nothing, here
  the first match in insertion order; \<open>insertOne(document)\<close> adds the document to the
  collection. The identifier the store generates on insertion is supplied by the caller
  of the model, already placed in the document.
\<close>

definition find_one :: "('d \<Rightarrow> bool) \<Rightarrow> 'd list \<Rightarrow> 'd option" where
  "find_one flt coll = List.find flt coll"

definition insert_one :: "'d \<Rightarrow> 'd list \<Rightarrow> 'd list" where
  "insert_one d coll = coll @ [d]"

subsection \<open>Errors and responses\<close>

text \<open>
  \<open>HTTPException status detail\<close> is the exception the code raises;
  \<open>ValidationError\<close> is what the constructor of a pydantic model raises on a field
  that is missing or ill-formed.
\<close>

datatype exn = HTTPException nat string | ValidationError

record user_out =
  out_id :: string
  out_name :: "string option"
  out_email :: "string option"
  out_role :: "string option"
  out_is_active :: bool

datatype role_literal = Admin | Doctor | Receptionist | Patient

fun role_str :: "role_literal \<Rightarrow> string" where
  "role_str Admin = ''admin''"
| "role_str Doctor = ''doctor''"
| "role_str Receptionist = ''receptionist''"
| "role_str Patient = ''patient''"

record signup_request =
  su_name :: string
  su_email :: string
  su_password :: string
  su_role :: role_literal

record login_request =
  li_email :: string
  li_password :: string

record auth_response =
  resp_token :: string
  resp_role :: string
  resp_name :: string
  resp_email :: string

text \<open>
  The constructor of \<^verbatim>\<open>AuthResponse\<close>: the fields \<^verbatim>\<open>role\<close> and \<^verbatim>\<open>name\<close> must be
  strings and \<^verbatim>\<open>email\<close> must pass the validator \<open>EmailStr\<close> of pydantic (a
  parameter), which gives the address in normal form.
\<close>

definition AuthResponse ::
  "(string \<Rightarrow> string option) \<Rightarrow> string \<Rightarrow> string option \<Rightarrow> string option \<Rightarrow> string option
    \<Rightarrow> exn + auth_response" where
  "AuthResponse EmailStr tk role name email =
     (case role of None \<Rightarrow> Inl ValidationError | Some r \<Rightarrow>
      case name of None \<Rightarrow> Inl ValidationError | Some n \<Rightarrow>
      case email of None \<Rightarrow> Inl ValidationError | Some e \<Rightarrow>
      case EmailStr e of None \<Rightarrow> Inl ValidationError | Some e' \<Rightarrow>
        Inr \<lparr>resp_token = tk, resp_role = r, resp_name = n, resp_email = e'\<rparr>)"

subsection \<open>Session issuer\<close>

text \<open>
  What one call of \<^verbatim>\<open>create_token\<close> reads from outside: the string of
  \<^verbatim>\<open>secrets.token_urlsafe(32)\<close> and the two clock readings, in the order of the calls.
\<close>

record token_inputs =
  rnd_token :: string
  now_expiry :: datetime
  now_created :: datetime

definition create_token ::
  "database \<Rightarrow> token_inputs \<Rightarrow> string \<Rightarrow> string option \<Rightarrow> string \<times> database" where
  "create_token db inp user_id role =
     (let tk = rnd_token inp;
          expires_at = now_expiry inp + timedelta_days 7;
          db' = db\<lparr>token := insert_one
                  \<lparr>tok_token = tk, tok_user_id = Str user_id, tok_role = role,
                   tok_expires_at = Some expires_at, tok_created_at = Some (now_created inp)\<rparr>
                  (token db)\<rparr>
      in (tk, db'))"

subsection \<open>Session resolver\<close>

definition get_user_from_token :: "database \<Rightarrow> datetime \<Rightarrow> string option \<Rightarrow> exn + user_out" where
  "get_user_from_token db now authorization =
     (case authorization of
        None \<Rightarrow> Inl (HTTPException 401 ''Missing Authorization header'')
      | Some a \<Rightarrow>
        if a = [] then Inl (HTTPException 401 ''Missing Authorization header'')
        else
         (case str_split a of
            [scheme, tk] \<Rightarrow>
              if str_lower scheme \<noteq> ''bearer''
              then Inl (HTTPException 401 ''Invalid Authorization header'')
              else
               (case find_one (\<lambda>d. tok_token d = tk) (token db) of
                  None \<Rightarrow> Inl (HTTPException 401 ''Invalid token'')
                | Some tok \<Rightarrow>
                    if (case tok_expires_at tok of None \<Rightarrow> False | Some e \<Rightarrow> e < now)
                    then Inl (HTTPException 401 ''Token expired'')
                    else
                     (let user = find_one (\<lambda>d. doc_id d = tok_user_id tok) (user_auth db);
                          user = (if user = None
                                  then find_one (\<lambda>d. doc_id d = tok_user_id tok) (user_auth db)
                                  else user);
                          user = (if user = None
                                  then (case ObjectId (tok_user_id tok) of
                                          None \<Rightarrow> None
                                        | Some oid \<Rightarrow> find_one (\<lambda>d. doc_id d = oid) (user_auth db))
                                  else user)
                      in case user of
                           None \<Rightarrow> Inl (HTTPException 401 ''User not found for token'')
                         | Some u \<Rightarrow>
                             Inr \<lparr>out_id = str_of_id (doc_id u), out_name = doc_name u,
                                  out_email = doc_email u, out_role = doc_role u,
                                  out_is_active =
                                    (case doc_is_active u of None \<Rightarrow> True | Some b \<Rightarrow> b)\<rparr>))
          | _ \<Rightarrow> Inl (HTTPException 401 ''Invalid Authorization header'')))"

subsection \<open>Access gate\<close>

text \<open>
  \<open>require_roles allowed\<close> is the closure \<^verbatim>\<open>dep\<close> the source returns, applied to a
  resolved identity; \<open>depends_require_roles\<close> is that closure behind
  \<^verbatim>\<open>Depends(get_user_from_token)\<close>, as every guarded endpoint uses it.
\<close>

definition require_roles :: "string list \<Rightarrow> user_out \<Rightarrow> exn + user_out" where
  "require_roles allowed user =
     (if out_role user \<notin> set (map Some allowed)
      then Inl (HTTPException 403 ''Forbidden for this role'')
      else Inr user)"

definition depends_require_roles ::
  "string list \<Rightarrow> database \<Rightarrow> datetime \<Rightarrow> string option \<Rightarrow> exn + user_out" where
  "depends_require_roles allowed db now authorization =
     (case get_user_from_token db now authorization of
        Inl e \<Rightarrow> Inl e
      | Inr user \<Rightarrow> require_roles allowed user)"

subsection \<open>Authentication endpoints\<close>

text \<open>
  What one call of \<^verbatim>\<open>signup\<close> reads from outside: two clock readings, the ObjectId
  (24 hexadecimal digits) the store gives the new identity, and the inputs of
  \<^verbatim>\<open>create_token\<close>.
\<close>

record signup_inputs =
  now_user_created :: datetime
  now_user_updated :: datetime
  inserted_id :: string
  issue :: token_inputs

definition signup ::
  "(8 word list \<Rightarrow> 256 word) \<Rightarrow> (string \<Rightarrow> string option) \<Rightarrow> database \<Rightarrow> signup_inputs
    \<Rightarrow> signup_request \<Rightarrow> (exn + auth_response) \<times> database" where
  "signup sha EmailStr db inp payload =
     (case find_one (\<lambda>d. doc_email d = Some (str_lower (su_email payload))) (user_auth db) of
        Some existing \<Rightarrow> (Inl (HTTPException 400 ''Email already registered''), db)
      | None \<Rightarrow>
         (let user_doc =
                \<lparr>doc_id = Oid (inserted_id inp),
                 doc_name = Some (su_name payload),
                 doc_email = Some (str_lower (su_email payload)),
                 doc_role = Some (role_str (su_role payload)),
                 doc_password_hash = Some (hash_password sha (su_password payload)),
                 doc_is_active = Some True,
                 doc_created_at = Some (now_user_created inp),
                 doc_updated_at = Some (now_user_updated inp)\<rparr>;
              db1 = db\<lparr>user_auth := insert_one user_doc (user_auth db)\<rparr>;
              user_id = str_of_id (Oid (inserted_id inp));
              (tk, db2) = create_token db1 (issue inp) user_id (Some (role_str (su_role payload)))
          in (AuthResponse EmailStr tk (Some (role_str (su_role payload)))
                (Some (su_name payload)) (Some (su_email payload)), db2)))"

definition login ::
  "(8 word list \<Rightarrow> 256 word) \<Rightarrow> (string \<Rightarrow> string option) \<Rightarrow> database \<Rightarrow> token_inputs
    \<Rightarrow> login_request \<Rightarrow> (exn + auth_response) \<times> database" where
  "login sha EmailStr db inp payload =
     (case find_one (\<lambda>d. doc_email d = Some (str_lower (li_email payload))) (user_auth db) of
        None \<Rightarrow> (Inl (HTTPException 401 ''Invalid email or password''), db)
      | Some user \<Rightarrow>
          if \<not> verify_password sha (li_password payload)
                 (case doc_password_hash user of None \<Rightarrow> [] | Some h \<Rightarrow> h)
          then (Inl (HTTPException 401 ''Invalid email or password''), db)
          else if \<not> (case doc_is_active user of None \<Rightarrow> True | Some b \<Rightarrow> b)
          then (Inl (HTTPException 403 ''User is inactive''), db)
          else
           (let (tk, db') = create_token db inp (str_of_id (doc_id user)) (doc_role user)
            in (AuthResponse EmailStr tk (doc_role user) (doc_name user) (doc_email user), db')))"

text \<open>A run of signups, one after the other, whatever each of them returns.\<close>

fun signups ::
  "(8 word list \<Rightarrow> 256 word) \<Rightarrow> (string \<Rightarrow> string option) \<Rightarrow> database
    \<Rightarrow> (signup_inputs \<times> signup_request) list \<Rightarrow> database" where
  "signups sha EmailStr db [] = db"
| "signups sha EmailStr db ((inp, payload) # rest) =
     signups sha EmailStr (snd (signup sha EmailStr db inp payload)) rest"

subsection \<open>Stored documents and the uniqueness of e-mails\<close>

text \<open>
  The identity document \<^verbatim>\<open>signup\<close> inserts and the session document
  \<^verbatim>\<open>create_token\<close> inserts, named so that theorems can speak of them.
\<close>

definition new_user_doc :: "(8 word list \<Rightarrow> 256 word) \<Rightarrow> signup_inputs \<Rightarrow> signup_request \<Rightarrow> user_doc" where
  "new_user_doc sha inp p =
     \<lparr>doc_id = Oid (inserted_id inp),
      doc_name = Some (su_name p),
      doc_email = Some (str_lower (su_email p)),
      doc_role = Some (role_str (su_role p)),
      doc_password_hash = Some (hash_password sha (su_password p)),
      doc_is_active = Some True,
      doc_created_at = Some (now_user_created inp),
      doc_updated_at = Some (now_user_updated inp)\<rparr>"

definition new_token_doc :: "token_inputs \<Rightarrow> string \<Rightarrow> string option \<Rightarrow> token_doc" where
  "new_token_doc inp uid r =
     \<lparr>tok_token = rnd_token inp, tok_user_id = Str uid, tok_role = r,
      tok_expires_at = Some (now_expiry inp + timedelta_days 7),
      tok_created_at = Some (now_created inp)\<rparr>"

text \<open>
  The e-mail fields present in the identity collection, and the invariant of the data
  model: no e-mail is stored twice and every stored e-mail is its own lowercase form, so
  no two identities have e-mails that are equal up to letter case.
\<close>

definition stored_emails :: "database \<Rightarrow> string list" where
  "stored_emails db = List.map_filter doc_email (user_auth db)"

definition email_unique :: "database \<Rightarrow> bool" where
  "email_unique db =
     (distinct (stored_emails db) \<and> list_all (\<lambda>e. str_lower e = e) (stored_emails db))"

subsection \<open>Concrete scenarios\<close>

text \<open>
  A small store on which the model is run: one identity, Ann the doctor, and one session
  token \<open>abc\<close> of hers that expires at time 100. \<open>demo_sha\<close> and
  \<open>demo_EmailStr\<close> stand in for the two library functions where a concrete run needs
  them: a digest that adds up the bytes, and a validator that asks for an \<open>@\<close>.
\<close>

definition demo_sha :: "8 word list \<Rightarrow> 256 word" where
  "demo_sha bs = of_nat (sum_list (map unat bs))"

definition demo_EmailStr :: "string \<Rightarrow> string option" where
  "demo_EmailStr e = (if CHR ''@'' \<in> set e then Some e else None)"

definition demo_user :: user_doc where
  "demo_user =
     \<lparr>doc_id = Oid ''65f0a1b2c3d4e5f601234567'', doc_name = Some ''Ann'',
      doc_email = Some ''ann@x.com'', doc_role = Some ''doctor'',
      doc_password_hash = Some (hash_password demo_sha ''secret''),
      doc_is_active = Some True, doc_created_at = Some 0, doc_updated_at = Some 0\<rparr>"

definition demo_token :: token_doc where
  "demo_token =
     \<lparr>tok_token = ''abc'', tok_user_id = Str ''65f0a1b2c3d4e5f601234567'',
      tok_role = Some ''doctor'', tok_expires_at = Some 100, tok_created_at = Some 0\<rparr>"

definition demo_db :: database where
  "demo_db = \<lparr>user_auth = [demo_user], token = [demo_token]\<rparr>"

definition demo_out :: user_out where
  "demo_out =
     \<lparr>out_id = ''65f0a1b2c3d4e5f601234567'', out_name = Some ''Ann'',
      out_email = Some ''ann@x.com'', out_role = Some ''doctor'', out_is_active = True\<rparr>"

definition demo_token_inputs :: token_inputs where
  "demo_token_inputs = \<lparr>rnd_token = ''t1'', now_expiry = 5, now_created = 6\<rparr>"

definition legacy_user :: user_doc where
  "legacy_user =
     \<lparr>doc_id = Oid ''65f0a1b2c3d4e5f601234568'', doc_name = Some ''Old'',
      doc_email = Some ''old@x.com'', doc_role = Some ''patient'',
      doc_password_hash = None,
      doc_is_active = None, doc_created_at = None, doc_updated_at = None\<rparr>"

definition legacy_db :: database where
  "legacy_db = \<lparr>user_auth = [demo_user, legacy_user], token = [demo_token]\<rparr>"

definition login_unknown :: login_request where
  "login_unknown = \<lparr>li_email = ''nobody@x.com'', li_password = ''secret''\<rparr>"

definition login_wrong :: login_request where
  "login_wrong = \<lparr>li_email = ''Ann@X.com'', li_password = ''wrong''\<rparr>"

definition login_legacy :: login_request where
  "login_legacy = \<lparr>li_email = ''old@x.com'', li_password = []\<rparr>"

definition signup_inputs_bob :: signup_inputs where
  "signup_inputs_bob =
     \<lparr>now_user_created = 1, now_user_updated = 2, inserted_id = ''65f0a1b2c3d4e5f6012345aa'',
      issue = demo_token_inputs\<rparr>"

definition signup_inputs_bob2 :: signup_inputs where
  "signup_inputs_bob2 =
     \<lparr>now_user_created = 3, now_user_updated = 4, inserted_id = ''65f0a1b2c3d4e5f6012345ab'',
      issue = \<lparr>rnd_token = ''t2'', now_expiry = 7, now_created = 8\<rparr>\<rparr>"

definition signup_bob :: signup_request where
  "signup_bob =
     \<lparr>su_name = ''Bob'', su_email = ''Bob@X.com'', su_password = ''pw'', su_role = Admin\<rparr>"

definition signup_bob_upper :: signup_request where
  "signup_bob_upper =
     \<lparr>su_name = ''Robert'', su_email = ''BOB@x.COM'', su_password = ''pw2'', su_role = Patient\<rparr>"

definition signup_ann :: signup_request where
  "signup_ann =
     \<lparr>su_name = ''Ann'', su_email = ''ANN@X.COM'', su_password = ''pw'', su_role = Patient\<rparr>"

definition admin_out :: user_out where
  "admin_out =
     \<lparr>out_id = ''65f0a1b2c3d4e5f6012345aa'', out_name = Some ''Bob'',
      out_email = Some ''bob@x.com'', out_role = Some ''admin'', out_is_active = True\<rparr>"

section \<open>Password hasher\<close>

lemma hexdigest_length: "length (hexdigest w) = 64"
  by (simp add: hexdigest_def)

lemma hexdigit_lower_hex: "is_lower_hex (hexdigit n)"
proof -
  have "list_all (\<lambda>k. is_lower_hex (''0123456789abcdef'' ! k)) [0..<16]"
    by code_simp
  then have "is_lower_hex (''0123456789abcdef'' ! k)" if "k < 16" for k
    using that by (simp add: list_all_iff)
  then show ?thesis by (simp add: hexdigit_def)
qed

lemma hash_password_lower_hex: "list_all is_lower_hex (hash_password sha p)"
  by (simp add: hash_password_def hexdigest_def list_all_iff hexdigit_lower_hex)

lemma hash_password_length: "length (hash_password sha p) = 64"
  by (simp add: hash_password_def hexdigest_length)

lemma hash_password_not_empty: "hash_password sha p \<noteq> []"
proof
  assume "hash_password sha p = []"
  then have "length (hash_password sha p) = 0" by simp
  then show False by (simp add: hash_password_length)
qed

text \<open>
  C7. The hasher round-trips. Verifying a plaintext against its own digest succeeds;
  \<open>verify_password p d\<close> holds exactly when the digest of \<open>p\<close> is \<open>d\<close>; for two
  different plaintexts, verifying one against the digest of the other succeeds only when
  their digests collide; and the digest is a function of the plaintext alone.
\<close>

theorem hasher_round_trip:
  "verify_password sha p (hash_password sha p)
   \<and> (verify_password sha p d \<longleftrightarrow> hash_password sha p = d)
   \<and> (p1 \<noteq> p2 \<longrightarrow>
        (verify_password sha p1 (hash_password sha p2)
          \<longleftrightarrow> hash_password sha p1 = hash_password sha p2))
   \<and> (p1 = p2 \<longrightarrow> hash_password sha p1 = hash_password sha p2)"
  by (simp add: verify_password_def)

theorem hasher_round_trip_witness:
  "verify_password demo_sha ''secret'' (hash_password demo_sha ''secret'')
   \<and> \<not> verify_password demo_sha ''a'' (hash_password demo_sha ''bc'')
   \<and> \<not> verify_password demo_sha ''secret'' ''0061''"
proof -
  have ne: "hash_password demo_sha ''a'' \<noteq> hash_password demo_sha ''bc''"
    by code_simp
  have ne': "hash_password demo_sha ''secret'' \<noteq> ''0061''"
    using hash_password_length [of demo_sha "''secret''"] by auto
  have diff: "''a'' \<noteq> ''bc''" by simp
  from hasher_round_trip [where sha = demo_sha and p = "''secret''" and d = "''0061''"
      and ?p1.0 = "''a''" and ?p2.0 = "''bc''"] ne ne' diff
  show ?thesis by blast
qed

section \<open>Access gate\<close>

text \<open>
  C2. The gate of \<open>require_roles\<close> fails with 403 \<open>Forbidden for this role\<close>
  exactly when the role of the resolved identity is not an element of the allowed list,
  compared as strings; otherwise it returns the identity as it got it. It does not read
  the active flag: an identity with an allowed role passes when the flag is false.
\<close>

theorem require_roles_exact:
  "(require_roles allowed u = Inl (HTTPException 403 ''Forbidden for this role'')
      \<longleftrightarrow> out_role u \<notin> Some ` set allowed)
   \<and> (require_roles allowed u = Inr u \<longleftrightarrow> out_role u \<in> Some ` set allowed)
   \<and> (out_role u \<in> Some ` set allowed \<longrightarrow>
        require_roles allowed (u\<lparr>out_is_active := False\<rparr>) = Inr (u\<lparr>out_is_active := False\<rparr>))"
  by (simp add: require_roles_def)

theorem require_roles_exact_witness:
  "require_roles [''admin'', ''doctor''] (demo_out\<lparr>out_is_active := False\<rparr>)
     = Inr (demo_out\<lparr>out_is_active := False\<rparr>)
   \<and> require_roles [''admin''] demo_out = Inl (HTTPException 403 ''Forbidden for this role'')
   \<and> require_roles [''Doctor''] demo_out = Inl (HTTPException 403 ''Forbidden for this role'')"
proof -
  have r: "out_role demo_out = Some ''doctor''" by (simp add: demo_out_def)
  from require_roles_exact [of "[''admin'', ''doctor'']" demo_out]
    require_roles_exact [of "[''admin'']" demo_out]
    require_roles_exact [of "[''Doctor'']" demo_out] r
  show ?thesis by auto
qed

section \<open>Login\<close>

text \<open>
  C4. Login gives the same error for an e-mail that matches no stored identity and for
  an e-mail that matches one whose digest does not match the password: both results are
  the exception 401 \<open>Invalid email or password\<close>, equal in status and message.
\<close>

theorem login_same_error:
  assumes unknown:
      "find_one (\<lambda>d. doc_email d = Some (str_lower (li_email p1))) (user_auth db) = None"
    and known:
      "find_one (\<lambda>d. doc_email d = Some (str_lower (li_email p2))) (user_auth db) = Some user"
    and mismatch:
      "\<not> verify_password sha (li_password p2)
           (case doc_password_hash user of None \<Rightarrow> [] | Some h \<Rightarrow> h)"
  shows "fst (login sha EmailStr db inp1 p1) = Inl (HTTPException 401 ''Invalid email or password'')
       \<and> fst (login sha EmailStr db inp2 p2) = Inl (HTTPException 401 ''Invalid email or password'')
       \<and> fst (login sha EmailStr db inp1 p1) = fst (login sha EmailStr db inp2 p2)"
  using assms by (simp add: login_def)

theorem login_same_error_witness:
  "fst (login demo_sha demo_EmailStr demo_db demo_token_inputs login_unknown)
     = fst (login demo_sha demo_EmailStr demo_db demo_token_inputs login_wrong)
   \<and> fst (login demo_sha demo_EmailStr demo_db demo_token_inputs login_wrong)
     = Inl (HTTPException 401 ''Invalid email or password'')"
proof -
  have u: "find_one (\<lambda>d. doc_email d = Some (str_lower (li_email login_unknown)))
             (user_auth demo_db) = None"
    by code_simp
  have k: "find_one (\<lambda>d. doc_email d = Some (str_lower (li_email login_wrong)))
             (user_auth demo_db) = Some demo_user"
    by code_simp
  have m: "\<not> verify_password demo_sha (li_password login_wrong)
               (case doc_password_hash demo_user of None \<Rightarrow> [] | Some h \<Rightarrow> h)"
    by code_simp
  from login_same_error [OF u k m, of demo_EmailStr demo_token_inputs demo_token_inputs]
  show ?thesis by simp
qed

text \<open>
  C5. A failed login leaves the store as it was. When the e-mail is unknown, when the
  password does not match, and when the account is inactive, login returns its error
  together with the unchanged store; whenever login raises an HTTP exception the store is
  unchanged; and the token collection differs after login only if an identity was found,
  its password verified and the account active, in which case the store is the one
  \<open>create_token\<close> returns.
\<close>

theorem failed_login_atomic:
  fixes sha EmailStr db inp p
  defines "found \<equiv> find_one (\<lambda>d. doc_email d = Some (str_lower (li_email p))) (user_auth db)"
  defines "res \<equiv> login sha EmailStr db inp p"
  shows "(found = None \<longrightarrow> res = (Inl (HTTPException 401 ''Invalid email or password''), db))
    \<and> (\<forall>user. found = Some user
          \<and> \<not> verify_password sha (li_password p)
                (case doc_password_hash user of None \<Rightarrow> [] | Some h \<Rightarrow> h)
        \<longrightarrow> res = (Inl (HTTPException 401 ''Invalid email or password''), db))
    \<and> (\<forall>user. found = Some user
          \<and> verify_password sha (li_password p)
                (case doc_password_hash user of None \<Rightarrow> [] | Some h \<Rightarrow> h)
          \<and> \<not> (case doc_is_active user of None \<Rightarrow> True | Some b \<Rightarrow> b)
        \<longrightarrow> res = (Inl (HTTPException 403 ''User is inactive''), db))
    \<and> (\<forall>status detail. fst res = Inl (HTTPException status detail) \<longrightarrow> snd res = db)
    \<and> (token (snd res) \<noteq> token db \<longrightarrow>
          (\<exists>user. found = Some user
             \<and> verify_password sha (li_password p)
                  (case doc_password_hash user of None \<Rightarrow> [] | Some h \<Rightarrow> h)
             \<and> (case doc_is_active user of None \<Rightarrow> True | Some b \<Rightarrow> b)
             \<and> snd res = snd (create_token db inp (str_of_id (doc_id user)) (doc_role user))))"
  unfolding found_def res_def
  by (auto simp: login_def AuthResponse_def split: option.splits prod.splits)

theorem failed_login_atomic_witness:
  "login demo_sha demo_EmailStr demo_db demo_token_inputs login_unknown
     = (Inl (HTTPException 401 ''Invalid email or password''), demo_db)
   \<and> login demo_sha demo_EmailStr demo_db demo_token_inputs login_wrong
     = (Inl (HTTPException 401 ''Invalid email or password''), demo_db)"
proof -
  have u: "find_one (\<lambda>d. doc_email d = Some (str_lower (li_email login_unknown)))
             (user_auth demo_db) = None"
    by code_simp
  have k: "find_one (\<lambda>d. doc_email d = Some (str_lower (li_email login_wrong)))
             (user_auth demo_db) = Some demo_user"
    by code_simp
  have m: "\<not> verify_password demo_sha (li_password login_wrong)
               (case doc_password_hash demo_user of None \<Rightarrow> [] | Some h \<Rightarrow> h)"
    by code_simp
  from failed_login_atomic [where p = login_unknown and db = demo_db and sha = demo_sha
      and EmailStr = demo_EmailStr and inp = demo_token_inputs] u
  have 1: "login demo_sha demo_EmailStr demo_db demo_token_inputs login_unknown
     = (Inl (HTTPException 401 ''Invalid email or password''), demo_db)"
    by blast
  from failed_login_atomic [where p = login_wrong and db = demo_db and sha = demo_sha
      and EmailStr = demo_EmailStr and inp = demo_token_inputs] k m
  have 2: "login demo_sha demo_EmailStr demo_db demo_token_inputs login_wrong
     = (Inl (HTTPException 401 ''Invalid email or password''), demo_db)"
    by blast
  from 1 2 show ?thesis by simp
qed

text \<open>
  C10. Login for a stored identity that has no password digest fails with 401
  \<open>Invalid email or password\<close> for every password, and leaves the store unchanged: the
  missing digest is read as the empty string, the digest of any password is 64
  hexadecimal digits, so verification against the empty string is false.
\<close>

theorem login_without_digest_fails:
  assumes "find_one (\<lambda>d. doc_email d = Some (str_lower (li_email p))) (user_auth db) = Some user"
    and "doc_password_hash user = None"
  shows "login sha EmailStr db inp p = (Inl (HTTPException 401 ''Invalid email or password''), db)
       \<and> length (hash_password sha (li_password p)) = 64
       \<and> list_all is_lower_hex (hash_password sha (li_password p))
       \<and> \<not> verify_password sha (li_password p) []"
  using assms hash_password_not_empty [of sha "li_password p"]
  by (simp add: login_def verify_password_def hash_password_length hash_password_lower_hex)

theorem login_without_digest_fails_witness:
  "login demo_sha demo_EmailStr legacy_db demo_token_inputs login_legacy
     = (Inl (HTTPException 401 ''Invalid email or password''), legacy_db)"
proof -
  have f: "find_one (\<lambda>d. doc_email d = Some (str_lower (li_email login_legacy)))
             (user_auth legacy_db) = Some legacy_user"
    by code_simp
  have n: "doc_password_hash legacy_user = None"
    by (simp add: legacy_user_def)
  from login_without_digest_fails [OF f n, of demo_sha demo_EmailStr demo_token_inputs]
  show ?thesis by simp
qed

section \<open>Session resolver\<close>

lemma split_from_Nil_iff: "split_from cur s = [] \<Longrightarrow> cur = []"
  by (induction s arbitrary: cur) (auto split: if_splits)

lemma str_split_two_nonempty: "str_split a = [x, y] \<Longrightarrow> a \<noteq> []"
  by (auto simp: str_split_def)

lemma str_lower_Bearer: "str_lower ''Bearer'' = ''bearer''"
  by code_simp

text \<open>
  What the resolver computes once the credential has split into a scheme and a token and
  the scheme is \<open>bearer\<close>: the second of the two identical lookups by the stored
  identifier adds nothing to the first.
\<close>

lemma resolve_two_parts:
  assumes "str_split a = [scheme, tk]" and "str_lower scheme = ''bearer''"
  shows "get_user_from_token db now (Some a) =
     (case find_one (\<lambda>d. tok_token d = tk) (token db) of
        None \<Rightarrow> Inl (HTTPException 401 ''Invalid token'')
      | Some tok \<Rightarrow>
          if (case tok_expires_at tok of None \<Rightarrow> False | Some e \<Rightarrow> e < now)
          then Inl (HTTPException 401 ''Token expired'')
          else
           (let user = find_one (\<lambda>d. doc_id d = tok_user_id tok) (user_auth db);
                user = (if user = None
                        then (case ObjectId (tok_user_id tok) of
                                None \<Rightarrow> None
                              | Some oid \<Rightarrow> find_one (\<lambda>d. doc_id d = oid) (user_auth db))
                        else user)
            in case user of
                 None \<Rightarrow> Inl (HTTPException 401 ''User not found for token'')
               | Some u \<Rightarrow>
                   Inr \<lparr>out_id = str_of_id (doc_id u), out_name = doc_name u,
                        out_email = doc_email u, out_role = doc_role u,
                        out_is_active = (case doc_is_active u of None \<Rightarrow> True | Some b \<Rightarrow> b)\<rparr>))"
  using assms str_split_two_nonempty [OF assms(1)]
  by (auto simp: get_user_from_token_def Let_def split: option.splits)

lemma resolve_parsed:
  assumes "str_split a = [scheme, tk]" and "str_lower scheme = ''bearer''"
    and "find_one (\<lambda>d. tok_token d = tk) (token db) = Some tok"
  shows "get_user_from_token db now (Some a) =
     (if (case tok_expires_at tok of None \<Rightarrow> False | Some e \<Rightarrow> e < now)
      then Inl (HTTPException 401 ''Token expired'')
      else
       (let user = find_one (\<lambda>d. doc_id d = tok_user_id tok) (user_auth db);
            user = (if user = None
                    then (case ObjectId (tok_user_id tok) of
                            None \<Rightarrow> None
                          | Some oid \<Rightarrow> find_one (\<lambda>d. doc_id d = oid) (user_auth db))
                    else user)
        in case user of
             None \<Rightarrow> Inl (HTTPException 401 ''User not found for token'')
           | Some u \<Rightarrow>
               Inr \<lparr>out_id = str_of_id (doc_id u), out_name = doc_name u,
                    out_email = doc_email u, out_role = doc_role u,
                    out_is_active = (case doc_is_active u of None \<Rightarrow> True | Some b \<Rightarrow> b)\<rparr>))"
  by (simp add: resolve_two_parts [OF assms(1,2)] assms(3))

lemma resolve_malformed:
  assumes "a \<noteq> []"
    and "\<not> (\<exists>scheme tk. str_split a = [scheme, tk] \<and> str_lower scheme = ''bearer'')"
  shows "get_user_from_token db now (Some a) = Inl (HTTPException 401 ''Invalid Authorization header'')"
  using assms by (auto simp: get_user_from_token_def split: list.splits)

lemma resolve_two_parts_not_parse_error:
  assumes "str_split a = [scheme, tk]" and "str_lower scheme = ''bearer''"
  shows "get_user_from_token db now (Some a) \<noteq> Inl (HTTPException 401 ''Missing Authorization header'')"
    and "get_user_from_token db now (Some a) \<noteq> Inl (HTTPException 401 ''Invalid Authorization header'')"
  unfolding resolve_two_parts [OF assms]
  by (auto simp: Let_def split: option.splits)

lemma demo_credential:
  "str_split ''Bearer abc'' = [''Bearer'', ''abc'']"
  "find_one (\<lambda>d. tok_token d = ''abc'') (token demo_db) = Some demo_token"
  "tok_expires_at demo_token = Some 100"
  by code_simp+

text \<open>
  C1, as the claim states it, fails at the instant the clock equals the expiry: the claim
  has the token invalid there, while the code compares \<open>expires_at < now\<close> and lets
  the token through. The token \<open>abc\<close> of the demo store expires at 100 and resolves to
  Ann at time 100.
\<close>

theorem expiry_instant_counterexample:
  "token demo_db = [demo_token] \<and> tok_token demo_token = ''abc''
   \<and> tok_expires_at demo_token = Some 100
   \<and> get_user_from_token demo_db 100 (Some ''Bearer abc'') = Inr demo_out
   \<and> get_user_from_token demo_db 100 (Some ''Bearer abc'')
       \<noteq> Inl (HTTPException 401 ''Token expired'')"
  by code_simp

text \<open>
  C1, amended. For a stored token with an expiry set, presented in a well-formed
  credential, the resolver fails with 401 \<open>Token expired\<close> exactly when the expiry is
  strictly before the current time; when the current time is at or before the expiry it
  goes on to the identity lookup, so its result is the identity or 401
  \<open>User not found for token\<close>.
\<close>

theorem expiry_check_strict:
  assumes "str_split a = [scheme, tk]" and "str_lower scheme = ''bearer''"
    and "find_one (\<lambda>d. tok_token d = tk) (token db) = Some tok"
    and "tok_expires_at tok = Some e"
  shows "(get_user_from_token db now (Some a) = Inl (HTTPException 401 ''Token expired'')
           \<longleftrightarrow> e < now)
       \<and> (now \<le> e \<longrightarrow>
            get_user_from_token db now (Some a) = Inl (HTTPException 401 ''User not found for token'')
            \<or> (\<exists>u. get_user_from_token db now (Some a) = Inr u))"
  unfolding resolve_parsed [OF assms(1-3)] using assms(4)
  by (auto simp: Let_def split: option.splits)

theorem expiry_check_strict_witness:
  "get_user_from_token demo_db 101 (Some ''Bearer abc'') = Inl (HTTPException 401 ''Token expired'')
   \<and> get_user_from_token demo_db 100 (Some ''Bearer abc'') \<noteq> Inl (HTTPException 401 ''Token expired'')
   \<and> get_user_from_token demo_db 99 (Some ''Bearer abc'') \<noteq> Inl (HTTPException 401 ''Token expired'')"
proof -
  note t = expiry_check_strict [OF demo_credential(1) str_lower_Bearer demo_credential(2,3)]
  from t [of 101] t [of 100] t [of 99] show ?thesis by simp
qed

text \<open>
  C3. A stored token whose expiry is in the past resolves to 401 \<open>Token expired\<close>
  whatever the identity collection holds: the result is the same for every replacement
  of \<open>user_auth\<close>, so no identity is ever returned.
\<close>

theorem expired_token_independent_of_identities:
  assumes "str_split a = [scheme, tk]" and "str_lower scheme = ''bearer''"
    and "find_one (\<lambda>d. tok_token d = tk) (token db) = Some tok"
    and "tok_expires_at tok = Some e" and "e < now"
  shows "get_user_from_token (db\<lparr>user_auth := users\<rparr>) now (Some a)
           = Inl (HTTPException 401 ''Token expired'')"
proof -
  have "find_one (\<lambda>d. tok_token d = tk) (token (db\<lparr>user_auth := users\<rparr>)) = Some tok"
    using assms(3) by simp
  from resolve_parsed [OF assms(1,2) this] assms(4,5) show ?thesis by simp
qed

theorem expired_token_independent_of_identities_witness:
  "get_user_from_token (demo_db\<lparr>user_auth := []\<rparr>) 101 (Some ''Bearer abc'')
     = Inl (HTTPException 401 ''Token expired'')
   \<and> get_user_from_token (demo_db\<lparr>user_auth := [demo_user, legacy_user]\<rparr>) 101 (Some ''Bearer abc'')
     = Inl (HTTPException 401 ''Token expired'')"
proof -
  have lt: "(100::int) < 101" by simp
  note t = expired_token_independent_of_identities
             [OF demo_credential(1) str_lower_Bearer demo_credential(2,3) lt]
  from t [of "[]"] t [of "[demo_user, legacy_user]"] show ?thesis by simp
qed

text \<open>
  C8, as the claim states it, fails on the empty credential: the claim sends every
  credential that does not split into two parts to 401 \<open>Invalid Authorization header\<close>,
  while the code tests \<open>not authorization\<close> first, which holds of the empty string as
  it does of an absent header, and answers 401 \<open>Missing Authorization header\<close>.
\<close>

theorem empty_credential_counterexample:
  "str_split [] = []
   \<and> get_user_from_token demo_db 0 (Some [])
       = Inl (HTTPException 401 ''Missing Authorization header'')
   \<and> get_user_from_token demo_db 0 (Some [])
       \<noteq> Inl (HTTPException 401 ''Invalid Authorization header'')"
  by code_simp

text \<open>
  C8, amended. An absent or empty credential fails with 401
  \<open>Missing Authorization header\<close>. A credential that is not empty and does not split
  into exactly two whitespace-separated parts of which the first equals \<open>Bearer\<close> up to
  letter case fails with 401 \<open>Invalid Authorization header\<close>. Every other credential
  passes parsing: the result is neither of the two errors, it is 401 \<open>Invalid token\<close>
  when no stored token has the second part as its string, and it is the same for every
  credential with that second part, whatever the letter case of the scheme.
\<close>

theorem credential_parsing:
  "get_user_from_token db now None = Inl (HTTPException 401 ''Missing Authorization header'')
   \<and> get_user_from_token db now (Some []) = Inl (HTTPException 401 ''Missing Authorization header'')
   \<and> (a \<noteq> [] \<and> \<not> (\<exists>scheme tk. str_split a = [scheme, tk] \<and> str_lower scheme = str_lower ''Bearer'')
        \<longrightarrow> get_user_from_token db now (Some a) = Inl (HTTPException 401 ''Invalid Authorization header''))
   \<and> (str_split a = [scheme, tk] \<and> str_lower scheme = str_lower ''Bearer'' \<longrightarrow>
        get_user_from_token db now (Some a) \<noteq> Inl (HTTPException 401 ''Missing Authorization header'')
        \<and> get_user_from_token db now (Some a) \<noteq> Inl (HTTPException 401 ''Invalid Authorization header'')
        \<and> (find_one (\<lambda>d. tok_token d = tk) (token db) = None \<longrightarrow>
             get_user_from_token db now (Some a) = Inl (HTTPException 401 ''Invalid token''))
        \<and> (\<forall>a' scheme'. str_split a' = [scheme', tk] \<and> str_lower scheme' = str_lower ''Bearer'' \<longrightarrow>
             get_user_from_token db now (Some a') = get_user_from_token db now (Some a)))"
proof -
  have missing: "get_user_from_token db now None = Inl (HTTPException 401 ''Missing Authorization header'')"
    "get_user_from_token db now (Some []) = Inl (HTTPException 401 ''Missing Authorization header'')"
    by (simp_all add: get_user_from_token_def)
  have malformed: "get_user_from_token db now (Some a) = Inl (HTTPException 401 ''Invalid Authorization header'')"
    if "a \<noteq> []" "\<not> (\<exists>scheme tk. str_split a = [scheme, tk] \<and> str_lower scheme = str_lower ''Bearer'')"
    using that resolve_malformed [of a db now] by (simp add: str_lower_Bearer)
  have wellformed: "get_user_from_token db now (Some a) \<noteq> Inl (HTTPException 401 ''Missing Authorization header'')
        \<and> get_user_from_token db now (Some a) \<noteq> Inl (HTTPException 401 ''Invalid Authorization header'')
        \<and> (find_one (\<lambda>d. tok_token d = tk) (token db) = None \<longrightarrow>
             get_user_from_token db now (Some a) = Inl (HTTPException 401 ''Invalid token''))
        \<and> (\<forall>a' scheme'. str_split a' = [scheme', tk] \<and> str_lower scheme' = str_lower ''Bearer'' \<longrightarrow>
             get_user_from_token db now (Some a') = get_user_from_token db now (Some a))"
    if p: "str_split a = [scheme, tk]" and b: "str_lower scheme = str_lower ''Bearer''"
  proof -
    from b have b': "str_lower scheme = ''bearer''" by (simp add: str_lower_Bearer)
    have 1: "get_user_from_token db now (Some a) \<noteq> Inl (HTTPException 401 ''Missing Authorization header'')"
      and 2: "get_user_from_token db now (Some a) \<noteq> Inl (HTTPException 401 ''Invalid Authorization header'')"
      using resolve_two_parts_not_parse_error [OF p b'] by blast+
    have 3: "find_one (\<lambda>d. tok_token d = tk) (token db) = None \<longrightarrow>
             get_user_from_token db now (Some a) = Inl (HTTPException 401 ''Invalid token'')"
      by (simp add: resolve_two_parts [OF p b'])
    have 4: "get_user_from_token db now (Some a') = get_user_from_token db now (Some a)"
      if "str_split a' = [scheme', tk]" "str_lower scheme' = str_lower ''Bearer''" for a' scheme'
    proof -
      from that(2) have "str_lower scheme' = ''bearer''" by (simp add: str_lower_Bearer)
      from resolve_two_parts [OF that(1) this] resolve_two_parts [OF p b'] show ?thesis by simp
    qed
    from 1 2 3 4 show ?thesis by blast
  qed
  from missing malformed wellformed show ?thesis by blast
qed

theorem credential_parsing_witness:
  "get_user_from_token demo_db 0 (Some ''Basic abc'')
     = Inl (HTTPException 401 ''Invalid Authorization header'')
   \<and> get_user_from_token demo_db 0 (Some ''Bearer'')
     = Inl (HTTPException 401 ''Invalid Authorization header'')
   \<and> get_user_from_token demo_db 0 (Some ''Bearer abc def'')
     = Inl (HTTPException 401 ''Invalid Authorization header'')
   \<and> get_user_from_token demo_db 0 (Some ''bEARER   abc'')
     = get_user_from_token demo_db 0 (Some ''Bearer abc'')
   \<and> get_user_from_token demo_db 0 (Some ''BEARER zzz'') = Inl (HTTPException 401 ''Invalid token'')"
proof -
  have basic: "str_split ''Basic abc'' = [''Basic'', ''abc'']"
    and nb: "str_lower ''Basic'' \<noteq> str_lower ''Bearer''"
    and one: "str_split ''Bearer'' = [''Bearer'']"
    and three: "str_split ''Bearer abc def'' = [''Bearer'', ''abc'', ''def'']"
    and std: "str_split ''Bearer abc'' = [''Bearer'', ''abc'']"
    and odd: "str_split ''bEARER   abc'' = [''bEARER'', ''abc'']"
    and oddl: "str_lower ''bEARER'' = str_lower ''Bearer''"
    and up: "str_split ''BEARER zzz'' = [''BEARER'', ''zzz'']"
    and upl: "str_lower ''BEARER'' = str_lower ''Bearer''"
    and none: "find_one (\<lambda>d. tok_token d = ''zzz'') (token demo_db) = None"
    by code_simp+
  have 1: "get_user_from_token demo_db 0 (Some ''Basic abc'')
     = Inl (HTTPException 401 ''Invalid Authorization header'')"
    using credential_parsing [where a = "''Basic abc''" and db = demo_db and now = 0] basic nb
    by auto
  have 2: "get_user_from_token demo_db 0 (Some ''Bearer'')
     = Inl (HTTPException 401 ''Invalid Authorization header'')"
    using credential_parsing [where a = "''Bearer''" and db = demo_db and now = 0] one
    by auto
  have 3: "get_user_from_token demo_db 0 (Some ''Bearer abc def'')
     = Inl (HTTPException 401 ''Invalid Authorization header'')"
    using credential_parsing [where a = "''Bearer abc def''" and db = demo_db and now = 0] three
    by auto
  have 4: "get_user_from_token demo_db 0 (Some ''bEARER   abc'')
     = get_user_from_token demo_db 0 (Some ''Bearer abc'')"
    using credential_parsing [where a = "''Bearer abc''" and scheme = "''Bearer''"
        and tk = "''abc''" and db = demo_db and now = 0] std odd oddl
    by blast
  have 5: "get_user_from_token demo_db 0 (Some ''BEARER zzz'') = Inl (HTTPException 401 ''Invalid token'')"
    using credential_parsing [where a = "''BEARER zzz''" and scheme = "''BEARER''"
        and tk = "''zzz''" and db = demo_db and now = 0] up upl none
    by blast
  from 1 2 3 4 5 show ?thesis by blast
qed


section \<open>Signup\<close>

lemma lower_char_idem: "lower_char (lower_char c) = lower_char c"
proof -
  have b: "of_char c < (256::nat)" by simp
  show ?thesis
    using b by (auto simp: lower_char_def Let_def)
qed

lemma str_lower_idem: "str_lower (str_lower s) = str_lower s"
  by (simp add: str_lower_def lower_char_idem)

lemma find_one_None_iff: "find_one P xs = None \<longleftrightarrow> \<not> (\<exists>x\<in>set xs. P x)"
  by (auto simp: find_one_def find_None_iff)

lemma find_one_append_fresh:
  "find_one P xs = None \<Longrightarrow> find_one P (xs @ [x]) = (if P x then Some x else None)"
  by (induction xs) (auto simp: find_one_def split: if_splits)

lemma find_one_append_found:
  "find_one P xs = Some y \<Longrightarrow> find_one P (xs @ zs) = Some y"
  by (induction xs) (auto simp: find_one_def split: if_splits)

lemma signup_duplicate:
  assumes "\<exists>u\<in>set (user_auth db). doc_email u = Some (str_lower (su_email p))"
  shows "signup sha EmailStr db inp p = (Inl (HTTPException 400 ''Email already registered''), db)"
proof -
  from assms have "find_one (\<lambda>d. doc_email d = Some (str_lower (su_email p))) (user_auth db) \<noteq> None"
    by (simp add: find_one_None_iff)
  then show ?thesis by (auto simp: signup_def)
qed

lemma create_token_eq:
  "create_token db inp uid r =
     (rnd_token inp, db\<lparr>token := token db @ [new_token_doc inp uid r]\<rparr>)"
  by (simp add: create_token_def new_token_doc_def insert_one_def Let_def)

lemma signup_fresh:
  assumes "find_one (\<lambda>d. doc_email d = Some (str_lower (su_email p))) (user_auth db) = None"
  shows "signup sha EmailStr db inp p =
     (AuthResponse EmailStr (rnd_token (issue inp)) (Some (role_str (su_role p)))
        (Some (su_name p)) (Some (su_email p)),
      \<lparr>user_auth = user_auth db @ [new_user_doc sha inp p],
       token = token db @ [new_token_doc (issue inp) (inserted_id inp) (Some (role_str (su_role p)))]\<rparr>)"
  using assms
  by (simp add: signup_def create_token_eq new_user_doc_def insert_one_def Let_def)

lemma signup_user_auth:
  "user_auth (snd (signup sha EmailStr db inp p)) =
     (if find_one (\<lambda>d. doc_email d = Some (str_lower (su_email p))) (user_auth db) = None
      then user_auth db @ [new_user_doc sha inp p] else user_auth db)"
  by (auto simp: signup_fresh) (auto simp: signup_def)

lemma signup_registers:
  "\<exists>u\<in>set (user_auth (snd (signup sha EmailStr db inp p))).
      doc_email u = Some (str_lower (su_email p))"
  by (auto simp: signup_user_auth find_one_None_iff new_user_doc_def)

lemma signup_keeps:
  "u \<in> set (user_auth db) \<Longrightarrow> u \<in> set (user_auth (snd (signup sha EmailStr db inp p)))"
  by (simp add: signup_user_auth)

lemma map_filter_append: "List.map_filter f (xs @ ys) = List.map_filter f xs @ List.map_filter f ys"
  by (simp add: List.map_filter_def)

lemma set_map_filter: "set (List.map_filter f xs) = {y. \<exists>x\<in>set xs. f x = Some y}"
  by (auto simp: List.map_filter_def) force

lemma signup_keeps_unique:
  assumes "email_unique db"
  shows "email_unique (snd (signup sha EmailStr db inp p))"
proof (cases "find_one (\<lambda>d. doc_email d = Some (str_lower (su_email p))) (user_auth db) = None")
  case True
  then have "str_lower (su_email p) \<notin> set (stored_emails db)"
    by (auto simp: find_one_None_iff stored_emails_def set_map_filter)
  with assms True show ?thesis
    by (simp add: email_unique_def stored_emails_def signup_user_auth map_filter_append
        List.map_filter_simps new_user_doc_def str_lower_idem)
next
  case False
  with assms show ?thesis
    by (auto simp: email_unique_def stored_emails_def signup_user_auth)
qed

lemma signups_keep_unique:
  "email_unique db \<Longrightarrow> email_unique (signups sha EmailStr db reqs)"
  by (induction reqs arbitrary: db) (auto simp: signup_keeps_unique)

lemma signups_keeps:
  "u \<in> set (user_auth db) \<Longrightarrow> u \<in> set (user_auth (signups sha EmailStr db reqs))"
  by (induction reqs arbitrary: db) (auto simp: signup_keeps)

lemma signups_registers:
  "(inp, p) \<in> set reqs \<Longrightarrow>
     \<exists>u\<in>set (user_auth (signups sha EmailStr db reqs)). doc_email u = Some (str_lower (su_email p))"
proof (induction reqs arbitrary: db)
  case Nil
  then show ?case by simp
next
  case (Cons r reqs)
  obtain i q where r: "r = (i, q)" by (cases r)
  show ?case
  proof (cases "(inp, p) = r")
    case True
    with r have [simp]: "i = inp" "q = p" by auto
    from signup_registers [of sha EmailStr db inp p]
    obtain u where "u \<in> set (user_auth (snd (signup sha EmailStr db inp p)))"
      "doc_email u = Some (str_lower (su_email p))" by blast
    then show ?thesis using signups_keeps [of u _ sha EmailStr reqs] by (auto simp: r)
  next
    case False
    with Cons.prems have "(inp, p) \<in> set reqs" by auto
    from Cons.IH [OF this] show ?thesis by (simp add: r)
  qed
qed

lemma count_one:
  "distinct (List.map_filter f xs) \<Longrightarrow> x \<in> set xs \<Longrightarrow> f x = Some s \<Longrightarrow>
     length (filter (\<lambda>d. f d = Some s) xs) = 1"
proof (induction xs)
  case Nil
  then show ?case by simp
next
  case (Cons y ys)
  show ?case
  proof (cases "f y = Some s")
    case True
    with Cons.prems(1) have "s \<notin> set (List.map_filter f ys)"
      by (simp add: List.map_filter_simps)
    then have "filter (\<lambda>d. f d = Some s) ys = []"
      by (auto simp: set_map_filter filter_empty_conv)
    with True show ?thesis by simp
  next
    case False
    with Cons.prems have "x \<in> set ys" "distinct (List.map_filter f ys)"
      by (auto simp: List.map_filter_simps split: option.splits)
    from Cons.IH [OF this(2,1) Cons.prems(3)] False show ?thesis by simp
  qed
qed

lemma email_unique_count:
  assumes "email_unique db" and "u \<in> set (user_auth db)" and "doc_email u = Some s"
  shows "length (filter (\<lambda>d. map_option str_lower (doc_email d) = Some s) (user_auth db)) = 1"
proof -
  have norm: "map_option str_lower (doc_email d) = doc_email d" if "d \<in> set (user_auth db)" for d
  proof (cases "doc_email d")
    case None
    then show ?thesis by simp
  next
    case (Some e)
    with that have "e \<in> set (stored_emails db)"
      by (auto simp: stored_emails_def set_map_filter)
    with assms(1) have "str_lower e = e" by (auto simp: email_unique_def list_all_iff)
    with Some show ?thesis by simp
  qed
  then have "filter (\<lambda>d. map_option str_lower (doc_email d) = Some s) (user_auth db)
           = filter (\<lambda>d. doc_email d = Some s) (user_auth db)"
    by (intro filter_cong) auto
  moreover from assms have "length (filter (\<lambda>d. doc_email d = Some s) (user_auth db)) = 1"
    by (intro count_one) (auto simp: email_unique_def stored_emails_def)
  ultimately show ?thesis by simp
qed

lemma split_from_no_space:
  "list_all (\<lambda>c. \<not> isspace c) s \<Longrightarrow>
     split_from cur s = (if cur = [] \<and> s = [] then [] else [rev cur @ s])"
  by (induction s arbitrary: cur) auto

lemma str_split_Bearer:
  assumes "tk \<noteq> []" and "list_all (\<lambda>c. \<not> isspace c) tk"
  shows "str_split (''Bearer '' @ tk) = [''Bearer'', tk]"
  using assms by (simp add: str_split_def isspace_def split_from_no_space)

lemma lower_hex_is_hex: "is_lower_hex c \<Longrightarrow> is_hex c"
  by (auto simp: is_lower_hex_def is_hex_def Let_def)

lemma lower_hex_lower_char: "is_lower_hex c \<Longrightarrow> lower_char c = c"
  by (auto simp: is_lower_hex_def lower_char_def Let_def)

lemma ObjectId_of_str:
  assumes "length h = 24" and "list_all is_lower_hex h"
  shows "ObjectId (Str h) = Some (Oid h)"
proof -
  from assms(2) have "list_all is_hex h"
    by (auto simp: list_all_iff lower_hex_is_hex)
  moreover from assms(2) have "str_lower h = h"
    by (auto simp: str_lower_def list_all_iff lower_hex_lower_char intro: map_idI)
  ultimately show ?thesis using assms(1) by simp
qed

lemma resolve_new_identity:
  assumes tkfresh: "find_one (\<lambda>d. tok_token d = rnd_token ti) (token db) = None"
    and tkform: "rnd_token ti \<noteq> []" "list_all (\<lambda>c. \<not> isspace c) (rnd_token ti)"
    and idfresh: "list_all (\<lambda>u. str_of_id (doc_id u) \<noteq> h) (user_auth db)"
    and idform: "length h = 24" "list_all is_lower_hex h"
    and time: "now \<le> now_expiry ti + timedelta_days 7"
    and u: "doc_id u = Oid h"
  shows "get_user_from_token
           \<lparr>user_auth = user_auth db @ [u], token = token db @ [new_token_doc ti h r]\<rparr>
           now (Some (''Bearer '' @ rnd_token ti))
         = Inr \<lparr>out_id = h, out_name = doc_name u, out_email = doc_email u,
                out_role = doc_role u,
                out_is_active = (case doc_is_active u of None \<Rightarrow> True | Some b \<Rightarrow> b)\<rparr>"
proof -
  let ?users = "user_auth db @ [u]"
  let ?tokens = "token db @ [new_token_doc ti h r]"
  let ?tok = "new_token_doc ti h r"
  have tok: "find_one (\<lambda>d. tok_token d = rnd_token ti)
               (token \<lparr>user_auth = ?users, token = ?tokens\<rparr>) = Some ?tok"
    using find_one_append_fresh [OF tkfresh, of ?tok] by (simp add: new_token_doc_def)
  have old: "\<not> (\<exists>x\<in>set (user_auth db). doc_id x = v)" if "str_of_id v = h" for v
    using idfresh that by (auto simp: list_all_iff)
  have s: "find_one (\<lambda>d. doc_id d = Str h) ?users = None"
    using old [of "Str h"] u by (auto simp: find_one_None_iff)
  have "find_one (\<lambda>d. doc_id d = Oid h) (user_auth db) = None"
    using old [of "Oid h"] by (simp add: find_one_None_iff)
  from find_one_append_fresh [OF this, of u] u
  have o: "find_one (\<lambda>d. doc_id d = Oid h) ?users = Some u" by simp
  have e: "tok_expires_at ?tok = Some (now_expiry ti + timedelta_days 7)"
    "tok_user_id ?tok = Str h"
    by (simp_all add: new_token_doc_def)
  have "get_user_from_token \<lparr>user_auth = ?users, token = ?tokens\<rparr> now
          (Some (''Bearer '' @ rnd_token ti))
        = Inr \<lparr>out_id = str_of_id (doc_id u), out_name = doc_name u, out_email = doc_email u,
                out_role = doc_role u,
                out_is_active = (case doc_is_active u of None \<Rightarrow> True | Some b \<Rightarrow> b)\<rparr>"
    unfolding resolve_parsed [OF str_split_Bearer [OF tkform] str_lower_Bearer tok]
    using time by (simp add: e s o ObjectId_of_str [OF idform] Let_def del: ObjectId.simps)
  then show ?thesis by (simp add: u)
qed

text \<open>
  C6. Signup keeps e-mails unique. When the lowercase form of the e-mail is the e-mail of
  a stored identity, signup fails with 400 \<open>Email already registered\<close> and leaves the
  store as it was, so neither an identity nor a token is created; a second signup with
  an e-mail that has the same lowercase form as that of a first one fails so, in any
  letter case. The empty identity collection satisfies the invariant, a run of signups
  keeps it, and after the run exactly one identity has, up to letter case, the e-mail of
  each request of the run.
\<close>

theorem signup_email_unique:
  "((\<exists>u\<in>set (user_auth db). doc_email u = Some (str_lower (su_email p))) \<longrightarrow>
      signup sha EmailStr db inp p = (Inl (HTTPException 400 ''Email already registered''), db))
   \<and> (str_lower (su_email p2) = str_lower (su_email p) \<longrightarrow>
        signup sha EmailStr (snd (signup sha EmailStr db inp p)) inp2 p2
          = (Inl (HTTPException 400 ''Email already registered''),
             snd (signup sha EmailStr db inp p)))
   \<and> email_unique (db\<lparr>user_auth := []\<rparr>)
   \<and> (email_unique db \<longrightarrow>
        email_unique (signups sha EmailStr db reqs)
        \<and> (\<forall>i q. (i, q) \<in> set reqs \<longrightarrow>
             length (filter (\<lambda>d. map_option str_lower (doc_email d) = Some (str_lower (su_email q)))
                       (user_auth (signups sha EmailStr db reqs))) = 1))"
proof -
  have dup: "signup sha EmailStr db inp p = (Inl (HTTPException 400 ''Email already registered''), db)"
    if "\<exists>u\<in>set (user_auth db). doc_email u = Some (str_lower (su_email p))"
    using that by (rule signup_duplicate)
  have twice: "signup sha EmailStr (snd (signup sha EmailStr db inp p)) inp2 p2
          = (Inl (HTTPException 400 ''Email already registered''),
             snd (signup sha EmailStr db inp p))"
    if "str_lower (su_email p2) = str_lower (su_email p)"
    using signup_registers [of sha EmailStr db inp p] that
    by (intro signup_duplicate) simp
  have empty: "email_unique (db\<lparr>user_auth := []\<rparr>)"
    by (simp add: email_unique_def stored_emails_def List.map_filter_simps)
  have inv: "email_unique (signups sha EmailStr db reqs)" if "email_unique db"
    using that by (rule signups_keep_unique)
  have one: "length (filter (\<lambda>d. map_option str_lower (doc_email d) = Some (str_lower (su_email q)))
                       (user_auth (signups sha EmailStr db reqs))) = 1"
    if "email_unique db" "(i, q) \<in> set reqs" for i q
  proof -
    from signups_registers [OF that(2), of sha EmailStr db]
    obtain u where "u \<in> set (user_auth (signups sha EmailStr db reqs))"
      "doc_email u = Some (str_lower (su_email q))" by blast
    with inv [OF that(1)] show ?thesis by (rule email_unique_count)
  qed
  from dup twice empty inv one show ?thesis by blast
qed

theorem signup_email_unique_witness:
  "signup demo_sha demo_EmailStr demo_db signup_inputs_bob signup_ann
     = (Inl (HTTPException 400 ''Email already registered''), demo_db)
   \<and> fst (signup demo_sha demo_EmailStr
            (snd (signup demo_sha demo_EmailStr demo_db signup_inputs_bob signup_bob))
            signup_inputs_bob2 signup_bob_upper)
     = Inl (HTTPException 400 ''Email already registered'')
   \<and> length (filter (\<lambda>d. map_option str_lower (doc_email d) = Some ''bob@x.com'')
        (user_auth (signups demo_sha demo_EmailStr demo_db
           [(signup_inputs_bob, signup_bob), (signup_inputs_bob2, signup_bob_upper)]))) = 1"
proof -
  have ann: "\<exists>u\<in>set (user_auth demo_db). doc_email u = Some (str_lower (su_email signup_ann))"
    by code_simp
  have same: "str_lower (su_email signup_bob_upper) = str_lower (su_email signup_bob)"
    by code_simp
  have low: "str_lower (su_email signup_bob) = ''bob@x.com''"
    by code_simp
  have inv: "email_unique demo_db"
    by code_simp
  have mem: "(signup_inputs_bob, signup_bob)
      \<in> set [(signup_inputs_bob, signup_bob), (signup_inputs_bob2, signup_bob_upper)]"
    by simp
  note t = signup_email_unique [where sha = demo_sha and EmailStr = demo_EmailStr and db = demo_db]
  from t [where p = signup_ann and inp = signup_inputs_bob] ann
  have 1: "signup demo_sha demo_EmailStr demo_db signup_inputs_bob signup_ann
     = (Inl (HTTPException 400 ''Email already registered''), demo_db)" by blast
  from t [where p = signup_bob and inp = signup_inputs_bob and ?p2.0 = signup_bob_upper
      and ?inp2.0 = signup_inputs_bob2] same
  have 2: "fst (signup demo_sha demo_EmailStr
            (snd (signup demo_sha demo_EmailStr demo_db signup_inputs_bob signup_bob))
            signup_inputs_bob2 signup_bob_upper)
     = Inl (HTTPException 400 ''Email already registered'')" by simp
  from t [where reqs = "[(signup_inputs_bob, signup_bob), (signup_inputs_bob2, signup_bob_upper)]"]
    inv mem
  have "length (filter (\<lambda>d. map_option str_lower (doc_email d) = Some (str_lower (su_email signup_bob)))
        (user_auth (signups demo_sha demo_EmailStr demo_db
           [(signup_inputs_bob, signup_bob), (signup_inputs_bob2, signup_bob_upper)]))) = 1"
    by blast
  then have 3: "length (filter (\<lambda>d. map_option str_lower (doc_email d) = Some ''bob@x.com'')
        (user_auth (signups demo_sha demo_EmailStr demo_db
           [(signup_inputs_bob, signup_bob), (signup_inputs_bob2, signup_bob_upper)]))) = 1"
    by (simp only: low)
  from 1 2 3 show ?thesis by blast
qed

text \<open>
  C9. Signup accepts the role \<open>admin\<close> from any caller. For a request with that role
  and an e-mail that is not registered yet (and that the validator of the response
  accepts, as it accepted it in the request), signup succeeds, stores an identity with
  role \<open>admin\<close> and a session token whose role snapshot is \<open>admin\<close>, and returns that
  token. When the token string and the identifier are new to the store and well formed (a
  non-empty string without whitespace, 24 lowercase hexadecimal digits), the credential
  \<open>Bearer <token>\<close> passes, until the token expires, every gate whose allowed list
  holds \<open>admin\<close>.
\<close>

theorem signup_admin_self_provision:
  fixes sha EmailStr db inp p e now allowed
  assumes fresh:
      "find_one (\<lambda>d. doc_email d = Some (str_lower (su_email p))) (user_auth db) = None"
    and admin: "su_role p = Admin"
    and valid: "EmailStr (su_email p) = Some e"
  defines "db' \<equiv> \<lparr>user_auth = user_auth db @ [new_user_doc sha inp p],
                   token = token db @ [new_token_doc (issue inp) (inserted_id inp) (Some ''admin'')]\<rparr>"
  shows "signup sha EmailStr db inp p =
           (Inr \<lparr>resp_token = rnd_token (issue inp), resp_role = ''admin'',
                 resp_name = su_name p, resp_email = e\<rparr>, db')
       \<and> doc_role (new_user_doc sha inp p) = Some ''admin''
       \<and> tok_token (new_token_doc (issue inp) (inserted_id inp) (Some ''admin''))
           = rnd_token (issue inp)
       \<and> tok_role (new_token_doc (issue inp) (inserted_id inp) (Some ''admin'')) = Some ''admin''
       \<and> (find_one (\<lambda>d. tok_token d = rnd_token (issue inp)) (token db) = None
          \<and> rnd_token (issue inp) \<noteq> []
          \<and> list_all (\<lambda>c. \<not> isspace c) (rnd_token (issue inp))
          \<and> list_all (\<lambda>u. str_of_id (doc_id u) \<noteq> inserted_id inp) (user_auth db)
          \<and> length (inserted_id inp) = 24
          \<and> list_all is_lower_hex (inserted_id inp)
          \<and> now \<le> now_expiry (issue inp) + timedelta_days 7
          \<and> ''admin'' \<in> set allowed
          \<longrightarrow> depends_require_roles allowed db' now (Some (''Bearer '' @ rnd_token (issue inp)))
                = Inr \<lparr>out_id = inserted_id inp, out_name = Some (su_name p),
                       out_email = Some (str_lower (su_email p)), out_role = Some ''admin'',
                       out_is_active = True\<rparr>)"
proof -
  have r: "role_str (su_role p) = ''admin''" using admin by simp
  have 1: "signup sha EmailStr db inp p =
           (Inr \<lparr>resp_token = rnd_token (issue inp), resp_role = ''admin'',
                 resp_name = su_name p, resp_email = e\<rparr>, db')"
    unfolding signup_fresh [OF fresh] db'_def
    by (simp add: AuthResponse_def valid r)
  have 2: "doc_role (new_user_doc sha inp p) = Some ''admin''"
    by (simp add: new_user_doc_def r)
  have 3: "tok_token (new_token_doc (issue inp) (inserted_id inp) (Some ''admin''))
           = rnd_token (issue inp)"
    "tok_role (new_token_doc (issue inp) (inserted_id inp) (Some ''admin'')) = Some ''admin''"
    by (simp_all add: new_token_doc_def)
  have 4: "depends_require_roles allowed db' now (Some (''Bearer '' @ rnd_token (issue inp)))
                = Inr \<lparr>out_id = inserted_id inp, out_name = Some (su_name p),
                       out_email = Some (str_lower (su_email p)), out_role = Some ''admin'',
                       out_is_active = True\<rparr>"
    if tkfresh: "find_one (\<lambda>d. tok_token d = rnd_token (issue inp)) (token db) = None"
      and tkform: "rnd_token (issue inp) \<noteq> []" "list_all (\<lambda>c. \<not> isspace c) (rnd_token (issue inp))"
      and idfresh: "list_all (\<lambda>u. str_of_id (doc_id u) \<noteq> inserted_id inp) (user_auth db)"
      and idform: "length (inserted_id inp) = 24" "list_all is_lower_hex (inserted_id inp)"
      and time: "now \<le> now_expiry (issue inp) + timedelta_days 7"
      and allowed: "''admin'' \<in> set allowed"
  proof -
    have u: "doc_id (new_user_doc sha inp p) = Oid (inserted_id inp)"
      by (simp add: new_user_doc_def)
    from resolve_new_identity [OF tkfresh tkform idfresh idform time u, of "Some ''admin''"]
    have "get_user_from_token db' now (Some (''Bearer '' @ rnd_token (issue inp)))
            = Inr \<lparr>out_id = inserted_id inp, out_name = Some (su_name p),
                   out_email = Some (str_lower (su_email p)), out_role = Some ''admin'',
                   out_is_active = True\<rparr>"
      by (simp add: db'_def new_user_doc_def r)
    then show ?thesis
      using allowed by (simp add: depends_require_roles_def require_roles_def)
  qed
  from 1 2 3 4 show ?thesis by blast
qed

theorem signup_admin_self_provision_witness:
  "fst (signup demo_sha demo_EmailStr demo_db signup_inputs_bob signup_bob)
     = Inr \<lparr>resp_token = ''t1'', resp_role = ''admin'', resp_name = ''Bob'',
            resp_email = ''Bob@X.com''\<rparr>
   \<and> depends_require_roles [''admin'']
        (snd (signup demo_sha demo_EmailStr demo_db signup_inputs_bob signup_bob))
        604800000005 (Some ''Bearer t1'')
     = Inr admin_out"
proof -
  have fresh: "find_one (\<lambda>d. doc_email d = Some (str_lower (su_email signup_bob)))
                 (user_auth demo_db) = None"
    by code_simp
  have admin: "su_role signup_bob = Admin"
    by (simp add: signup_bob_def)
  have valid: "demo_EmailStr (su_email signup_bob) = Some ''Bob@X.com''"
    by code_simp
  have pre: "find_one (\<lambda>d. tok_token d = rnd_token (issue signup_inputs_bob)) (token demo_db) = None
          \<and> rnd_token (issue signup_inputs_bob) \<noteq> []
          \<and> list_all (\<lambda>c. \<not> isspace c) (rnd_token (issue signup_inputs_bob))
          \<and> list_all (\<lambda>u. str_of_id (doc_id u) \<noteq> inserted_id signup_inputs_bob) (user_auth demo_db)
          \<and> length (inserted_id signup_inputs_bob) = 24
          \<and> list_all is_lower_hex (inserted_id signup_inputs_bob)
          \<and> 604800000005 \<le> now_expiry (issue signup_inputs_bob) + timedelta_days 7
          \<and> ''admin'' \<in> set [''admin'']"
    by code_simp
  have vals: "rnd_token (issue signup_inputs_bob) = ''t1''"
    "inserted_id signup_inputs_bob = ''65f0a1b2c3d4e5f6012345aa''"
    "su_name signup_bob = ''Bob''"
    "str_lower (su_email signup_bob) = ''bob@x.com''"
    by code_simp+
  from signup_admin_self_provision [where EmailStr = demo_EmailStr and p = signup_bob
      and db = demo_db and e = "''Bob@X.com''" and sha = demo_sha and inp = signup_inputs_bob
      and now = 604800000005 and allowed = "[''admin'']", OF fresh admin valid] pre
  show ?thesis
    by (simp add: vals admin_out_def)
qed

end
